theory Spec2Isabelle
  imports Main "HOL-Library.Multiset"
begin

section \<open>The shared definitions of tapkee: \<^verbatim>\<open>tapkee_defines.hpp\<close>\<close>

text \<open>
  The header declares the library's configuration vocabulary (three enumerations and the
  key enumeration of the parameters map) and the projection wrapper. A C++ enumeration is
  modelled as a datatype with one constructor for each enumerator, together with the
  function that gives each enumerator its integral value: no enumerator of the header has
  an initialiser, so the first has value 0 and each later one the value of its predecessor
  plus one.
\<close>

subsection \<open>\<^verbatim>\<open>enum TAPKEE_PARAMETERS\<close> and \<^verbatim>\<open>ParametersMap\<close>\<close>

datatype TAPKEE_PARAMETERS =
    REDUCTION_METHOD
  | NUMBER_OF_NEIGHBORS
  | TARGET_DIMENSION
  | CURRENT_DIMENSION
  | EIGEN_EMBEDDING_METHOD
  | NEIGHBORS_METHOD
  | DIFFUSION_MAP_TIMESTEPS
  | GAUSSIAN_KERNEL_WIDTH
  | MAX_ITERATION
  | SPE_GLOBAL_STRATEGY
  | SPE_TOLERANCE
  | SPE_NUM_UPDATES
  | LANDMARK_RATIO
  | EIGENSHIFT

fun TAPKEE_PARAMETERS_value :: "TAPKEE_PARAMETERS \<Rightarrow> nat" where
  "TAPKEE_PARAMETERS_value REDUCTION_METHOD = 0"
| "TAPKEE_PARAMETERS_value NUMBER_OF_NEIGHBORS = 1"
| "TAPKEE_PARAMETERS_value TARGET_DIMENSION = 2"
| "TAPKEE_PARAMETERS_value CURRENT_DIMENSION = 3"
| "TAPKEE_PARAMETERS_value EIGEN_EMBEDDING_METHOD = 4"
| "TAPKEE_PARAMETERS_value NEIGHBORS_METHOD = 5"
| "TAPKEE_PARAMETERS_value DIFFUSION_MAP_TIMESTEPS = 6"
| "TAPKEE_PARAMETERS_value GAUSSIAN_KERNEL_WIDTH = 7"
| "TAPKEE_PARAMETERS_value MAX_ITERATION = 8"
| "TAPKEE_PARAMETERS_value SPE_GLOBAL_STRATEGY = 9"
| "TAPKEE_PARAMETERS_value SPE_TOLERANCE = 10"
| "TAPKEE_PARAMETERS_value SPE_NUM_UPDATES = 11"
| "TAPKEE_PARAMETERS_value LANDMARK_RATIO = 12"
| "TAPKEE_PARAMETERS_value EIGENSHIFT = 13"

text \<open>
  \<^verbatim>\<open>typedef std::map<TAPKEE_PARAMETERS, any> ParametersMap;\<close>
  The value type \<^verbatim>\<open>any\<close> comes from \<^verbatim>\<open>utils/any.hpp\<close>, which this header only includes;
  it is a type parameter here.
\<close>

type_synonym 'any ParametersMap = "TAPKEE_PARAMETERS \<rightharpoonup> 'any"

text \<open>
  The options that the specification's data model lists for the parameters map, in its
  words and order, and the enumerator each of them names.
\<close>

datatype spec_option =
    Opt_method
  | Opt_neighbor_count
  | Opt_target_dimension
  | Opt_eigen_embedding_backend
  | Opt_neighbor_search_backend
  | Opt_diffusion_time_steps
  | Opt_kernel_width
  | Opt_max_iterations
  | Opt_landmark_ratio
  | Opt_eigenvalue_shift
  | Opt_proximity_embedding_tolerance
  | Opt_proximity_embedding_update_count
  | Opt_proximity_embedding_global_strategy_flag

fun spec_option_key :: "spec_option \<Rightarrow> TAPKEE_PARAMETERS" where
  "spec_option_key Opt_method = REDUCTION_METHOD"
| "spec_option_key Opt_neighbor_count = NUMBER_OF_NEIGHBORS"
| "spec_option_key Opt_target_dimension = TARGET_DIMENSION"
| "spec_option_key Opt_eigen_embedding_backend = EIGEN_EMBEDDING_METHOD"
| "spec_option_key Opt_neighbor_search_backend = NEIGHBORS_METHOD"
| "spec_option_key Opt_diffusion_time_steps = DIFFUSION_MAP_TIMESTEPS"
| "spec_option_key Opt_kernel_width = GAUSSIAN_KERNEL_WIDTH"
| "spec_option_key Opt_max_iterations = MAX_ITERATION"
| "spec_option_key Opt_landmark_ratio = LANDMARK_RATIO"
| "spec_option_key Opt_eigenvalue_shift = EIGENSHIFT"
| "spec_option_key Opt_proximity_embedding_tolerance = SPE_TOLERANCE"
| "spec_option_key Opt_proximity_embedding_update_count = SPE_NUM_UPDATES"
| "spec_option_key Opt_proximity_embedding_global_strategy_flag = SPE_GLOBAL_STRATEGY"

subsection \<open>\<^verbatim>\<open>enum TAPKEE_METHOD\<close>\<close>

datatype TAPKEE_METHOD =
    KERNEL_LOCALLY_LINEAR_EMBEDDING
  | NEIGHBORHOOD_PRESERVING_EMBEDDING
  | KERNEL_LOCAL_TANGENT_SPACE_ALIGNMENT
  | LINEAR_LOCAL_TANGENT_SPACE_ALIGNMENT
  | HESSIAN_LOCALLY_LINEAR_EMBEDDING
  | LAPLACIAN_EIGENMAPS
  | LOCALITY_PRESERVING_PROJECTIONS
  | DIFFUSION_MAP
  | ISOMAP
  | LANDMARK_ISOMAP
  | MULTIDIMENSIONAL_SCALING
  | LANDMARK_MULTIDIMENSIONAL_SCALING
  | STOCHASTIC_PROXIMITY_EMBEDDING
  | KERNEL_PCA
  | PCA
  | UNKNOWN_METHOD

fun TAPKEE_METHOD_value :: "TAPKEE_METHOD \<Rightarrow> nat" where
  "TAPKEE_METHOD_value KERNEL_LOCALLY_LINEAR_EMBEDDING = 0"
| "TAPKEE_METHOD_value NEIGHBORHOOD_PRESERVING_EMBEDDING = 1"
| "TAPKEE_METHOD_value KERNEL_LOCAL_TANGENT_SPACE_ALIGNMENT = 2"
| "TAPKEE_METHOD_value LINEAR_LOCAL_TANGENT_SPACE_ALIGNMENT = 3"
| "TAPKEE_METHOD_value HESSIAN_LOCALLY_LINEAR_EMBEDDING = 4"
| "TAPKEE_METHOD_value LAPLACIAN_EIGENMAPS = 5"
| "TAPKEE_METHOD_value LOCALITY_PRESERVING_PROJECTIONS = 6"
| "TAPKEE_METHOD_value DIFFUSION_MAP = 7"
| "TAPKEE_METHOD_value ISOMAP = 8"
| "TAPKEE_METHOD_value LANDMARK_ISOMAP = 9"
| "TAPKEE_METHOD_value MULTIDIMENSIONAL_SCALING = 10"
| "TAPKEE_METHOD_value LANDMARK_MULTIDIMENSIONAL_SCALING = 11"
| "TAPKEE_METHOD_value STOCHASTIC_PROXIMITY_EMBEDDING = 12"
| "TAPKEE_METHOD_value KERNEL_PCA = 13"
| "TAPKEE_METHOD_value PCA = 14"
| "TAPKEE_METHOD_value UNKNOWN_METHOD = 15"

text \<open>
  The algorithms that the specification's scope lists, in its words and order, and the
  enumerator that stands for each. The header documents
  \<^verbatim>\<open>KERNEL_LOCALLY_LINEAR_EMBEDDING\<close> as "Locally Linear Embedding / Kernel Locally Linear
  Embedding" and \<^verbatim>\<open>KERNEL_LOCAL_TANGENT_SPACE_ALIGNMENT\<close> as "Local Tangent Space Alignment /
  Kernel Local Tangent Space Alignment"; the other enumerators carry the algorithm's name.
\<close>

datatype spec_algorithm =
    Alg_LLE
  | Alg_LTSA
  | Alg_Hessian_LLE
  | Alg_Laplacian_Eigenmaps
  | Alg_Locality_Preserving_Projections
  | Alg_Diffusion_Maps
  | Alg_Isomap
  | Alg_Landmark_Isomap
  | Alg_MDS
  | Alg_Landmark_MDS
  | Alg_Stochastic_Proximity_Embedding
  | Alg_PCA
  | Alg_Kernel_PCA

fun spec_algorithm_member :: "spec_algorithm \<Rightarrow> TAPKEE_METHOD" where
  "spec_algorithm_member Alg_LLE = KERNEL_LOCALLY_LINEAR_EMBEDDING"
| "spec_algorithm_member Alg_LTSA = KERNEL_LOCAL_TANGENT_SPACE_ALIGNMENT"
| "spec_algorithm_member Alg_Hessian_LLE = HESSIAN_LOCALLY_LINEAR_EMBEDDING"
| "spec_algorithm_member Alg_Laplacian_Eigenmaps = LAPLACIAN_EIGENMAPS"
| "spec_algorithm_member Alg_Locality_Preserving_Projections = LOCALITY_PRESERVING_PROJECTIONS"
| "spec_algorithm_member Alg_Diffusion_Maps = DIFFUSION_MAP"
| "spec_algorithm_member Alg_Isomap = ISOMAP"
| "spec_algorithm_member Alg_Landmark_Isomap = LANDMARK_ISOMAP"
| "spec_algorithm_member Alg_MDS = MULTIDIMENSIONAL_SCALING"
| "spec_algorithm_member Alg_Landmark_MDS = LANDMARK_MULTIDIMENSIONAL_SCALING"
| "spec_algorithm_member Alg_Stochastic_Proximity_Embedding = STOCHASTIC_PROXIMITY_EMBEDDING"
| "spec_algorithm_member Alg_PCA = PCA"
| "spec_algorithm_member Alg_Kernel_PCA = KERNEL_PCA"

subsection \<open>\<^verbatim>\<open>enum TAPKEE_NEIGHBORS_METHOD\<close> and \<^verbatim>\<open>enum TAPKEE_EIGEN_EMBEDDING_METHOD\<close>\<close>

datatype TAPKEE_NEIGHBORS_METHOD =
    BRUTE_FORCE
  | COVER_TREE
  | UNKNOWN_NEIGHBORS_METHOD

fun TAPKEE_NEIGHBORS_METHOD_value :: "TAPKEE_NEIGHBORS_METHOD \<Rightarrow> nat" where
  "TAPKEE_NEIGHBORS_METHOD_value BRUTE_FORCE = 0"
| "TAPKEE_NEIGHBORS_METHOD_value COVER_TREE = 1"
| "TAPKEE_NEIGHBORS_METHOD_value UNKNOWN_NEIGHBORS_METHOD = 2"

datatype TAPKEE_EIGEN_EMBEDDING_METHOD =
    ARPACK
  | RANDOMIZED
  | EIGEN_DENSE_SELFADJOINT_SOLVER
  | UNKNOWN_EIGEN_METHOD

fun TAPKEE_EIGEN_EMBEDDING_METHOD_value :: "TAPKEE_EIGEN_EMBEDDING_METHOD \<Rightarrow> nat" where
  "TAPKEE_EIGEN_EMBEDDING_METHOD_value ARPACK = 0"
| "TAPKEE_EIGEN_EMBEDDING_METHOD_value RANDOMIZED = 1"
| "TAPKEE_EIGEN_EMBEDDING_METHOD_value EIGEN_DENSE_SELFADJOINT_SOLVER = 2"
| "TAPKEE_EIGEN_EMBEDDING_METHOD_value UNKNOWN_EIGEN_METHOD = 3"

subsection \<open>\<^verbatim>\<open>ProjectingImplementation\<close> and \<^verbatim>\<open>ProjectingFunction\<close>\<close>

text \<open>
  A pointer is an address and 0 is the null pointer.
\<close>

type_synonym address = nat

text \<open>
  \<^verbatim>\<open>struct ProjectingImplementation\<close> is an abstract class with a virtual destructor and
  one operation, \<^verbatim>\<open>virtual DenseVector project(const DenseVector& vec) = 0;\<close>. The classes
  that derive from it are not in this header. An object of such a class is its dynamic
  type, which selects the overrider of \<^verbatim>\<open>project\<close>, and its data members; the types of both
  are parameters.
\<close>

record ('c, 'd) ProjectingImplementation =
  dynamic_type :: 'c
  members :: 'd

text \<open>
  \<^verbatim>\<open>struct ProjectingFunction\<close> has one data member,
  \<^verbatim>\<open>ProjectingImplementation* implementation;\<close>.
\<close>

record ProjectingFunction =
  implementation :: address

text \<open>
  The program state: the live \<^verbatim>\<open>ProjectingImplementation\<close> objects and the live
  \<^verbatim>\<open>ProjectingFunction\<close> objects, by address, and everything else (other objects, globals,
  the state of random generators and of input), whose type is a parameter.
\<close>

record ('c, 'd, 'g) memory =
  implementations :: "address \<rightharpoonup> ('c, 'd) ProjectingImplementation"
  projecting_functions :: "address \<rightharpoonup> ProjectingFunction"
  other_state :: 'g

text \<open>
  \<^verbatim>\<open>project\<close> is a non-const member function, and nothing in the header restricts what an
  overrider does. The overriders are a parameter: for each dynamic type a function of the
  address of the object, the argument vector and the whole program state, which fails (in
  a way of its own, of type \<^typ>\<open>'x\<close>) or returns the output vector and the program state
  as it leaves it. \<^verbatim>\<open>DenseVector\<close> is a customizable type and a parameter too.
\<close>

type_synonym ('c, 'd, 'g, 'v, 'x) overriders =
  "'c \<Rightarrow> address \<Rightarrow> 'v \<Rightarrow> ('c, 'd, 'g) memory \<Rightarrow> 'x + 'v \<times> ('c, 'd, 'g) memory"

text \<open>
  \<^verbatim>\<open>ProjectingFunction(ProjectingImplementation* impl) : implementation(impl) {};\<close>
\<close>

definition ProjectingFunction_ctor :: "address \<Rightarrow> ProjectingFunction" where
  "ProjectingFunction_ctor impl = \<lparr>implementation = impl\<rparr>"

text \<open>
  The structure declares no copy constructor, so the implicit one copies the pointer.
\<close>

definition ProjectingFunction_copy :: "ProjectingFunction \<Rightarrow> ProjectingFunction" where
  "ProjectingFunction_copy other = \<lparr>implementation = implementation other\<rparr>"

text \<open>
  The lifetime of a \<^verbatim>\<open>ProjectingFunction\<close> object at an address begins with the value that
  its constructor gives it. The structure declares no destructor, so the implicit one ends
  the lifetime of the object and does nothing else.
\<close>

definition ProjectingFunction_begin ::
  "address \<Rightarrow> ProjectingFunction \<Rightarrow> ('c, 'd, 'g) memory \<Rightarrow> ('c, 'd, 'g) memory" where
  "ProjectingFunction_begin this f m =
     m\<lparr>projecting_functions := (projecting_functions m)(this \<mapsto> f)\<rparr>"

definition ProjectingFunction_dtor ::
  "address \<Rightarrow> ('c, 'd, 'g) memory \<Rightarrow> ('c, 'd, 'g) memory" where
  "ProjectingFunction_dtor this m =
     m\<lparr>projecting_functions := (projecting_functions m)(this := None)\<rparr>"

text \<open>
  \<^verbatim>\<open>inline DenseVector operator()(const DenseVector& vec) { return implementation->project(vec); }\<close>
  The call reads the pointer of the object at \<^verbatim>\<open>this\<close> and calls \<^verbatim>\<open>project\<close> on the object
  that it points to, dispatched on that object's dynamic type. The behaviour is undefined
  when no \<^verbatim>\<open>ProjectingFunction\<close> lives at \<^verbatim>\<open>this\<close>, when the pointer is null and when no
  object lives at the address it holds; these are results of the model, and so is a
  failure of the overrider.
\<close>

datatype 'x failure = NullPointerDereference | DeadObjectAccess | ProjectFailure 'x

definition ProjectingFunction_call ::
  "('c, 'd, 'g, 'v, 'x) overriders \<Rightarrow> address \<Rightarrow> 'v \<Rightarrow> ('c, 'd, 'g) memory \<Rightarrow>
     'x failure + 'v \<times> ('c, 'd, 'g) memory" where
  "ProjectingFunction_call project this vec m =
     (case projecting_functions m this of
        None \<Rightarrow> Inl DeadObjectAccess
      | Some f \<Rightarrow>
          if implementation f = 0 then Inl NullPointerDereference
          else case implementations m (implementation f) of
            None \<Rightarrow> Inl DeadObjectAccess
          | Some obj \<Rightarrow>
              (case project (dynamic_type obj) (implementation f) vec m of
                 Inl x \<Rightarrow> Inl (ProjectFailure x)
               | Inr r \<Rightarrow> Inr r))"


text \<open>
  The \<^verbatim>\<open>ProjectingFunction\<close> objects alive at one moment own their implementations
  exclusively when no two of them hold the same pointer.
\<close>

definition exclusively_owned :: "ProjectingFunction list \<Rightarrow> bool" where
  "exclusively_owned fs = distinct (map implementation fs)"

text \<open>
  Two classes that the header admits as \<^verbatim>\<open>ProjectingImplementation\<close>s. The first counts
  its calls in a data member and adds the count to every coordinate; the second ignores
  its data member and projects on the first coordinate.
  \<^verbatim>\<open>
  struct CountingProjection : ProjectingImplementation {
    unsigned int calls;
    DenseVector project(const DenseVector& vec)
      { DenseVector out = vec.array() + calls; calls++; return out; }
  };
  struct FirstCoordinate : ProjectingImplementation {
    unsigned int unused;
    DenseVector project(const DenseVector& vec) { return vec.head(1); }
  };
  \<close>
\<close>

datatype example_class = CountingProjection | FirstCoordinate

fun example_project :: "(example_class, nat, unit, int list, unit) overriders" where
  "example_project CountingProjection this vec m =
     (case implementations m this of
        None \<Rightarrow> Inl ()
      | Some obj \<Rightarrow>
          Inr (map (\<lambda>x. x + int (members obj)) vec,
               m\<lparr>implementations :=
                    (implementations m)(this \<mapsto> obj\<lparr>members := Suc (members obj)\<rparr>)\<rparr>))"
| "example_project FirstCoordinate this vec m = Inr (take 1 vec, m)"

text \<open>
  A program state with one implementation object of the given class and data member at
  address 1 and two \<^verbatim>\<open>ProjectingFunction\<close> objects, at the addresses 10 and 11, of which the
  second is a copy of the first.
\<close>

definition example_memory :: "example_class \<Rightarrow> nat \<Rightarrow> (example_class, nat, unit) memory" where
  "example_memory c n =
     \<lparr>implementations = [1 \<mapsto> \<lparr>dynamic_type = c, members = n\<rparr>],
      projecting_functions =
        [10 \<mapsto> ProjectingFunction_ctor 1,
         11 \<mapsto> ProjectingFunction_copy (ProjectingFunction_ctor 1)],
      other_state = ()\<rparr>"

subsection \<open>The eigenproblem solver backends\<close>

text \<open>
  Modelled from the spec: the function \<^verbatim>\<open>solve\<close> of the eigenproblem solver backend (the
  specification's section 4.5) is missing from this header, which declares only the
  enumeration \<^verbatim>\<open>TAPKEE_EIGEN_EMBEDDING_METHOD\<close> that selects the backend and the types
  \<^verbatim>\<open>DenseVector\<close> and \<^verbatim>\<open>DenseMatrix\<close>. A dense vector is the list of its entries and a dense
  matrix the list of its rows; the scalar type is a parameter (an ordered ring: the
  rounding of \<^verbatim>\<open>double\<close> is not modelled). An operator is given by its dense matrix.
\<close>

type_synonym 'e DenseVector = "'e list"

type_synonym 'e DenseMatrix = "'e list list"

definition dot :: "'e::linordered_idom DenseVector \<Rightarrow> 'e DenseVector \<Rightarrow> 'e" where
  "dot u v = sum_list (map2 (*) u v)"

definition mat_vec :: "'e::linordered_idom DenseMatrix \<Rightarrow> 'e DenseVector \<Rightarrow> 'e DenseVector" where
  "mat_vec A v = map (\<lambda>row. dot row v) A"

text \<open>
  Modelled from the spec: "Generalized eigenproblem: solving A v = lambda B v for two
  operators A, B, versus the standard A v = lambda v". The second operator is optional.
\<close>

definition second_operator ::
  "'e::linordered_idom DenseMatrix option \<Rightarrow> 'e DenseVector \<Rightarrow> 'e DenseVector" where
  "second_operator B v = (case B of None \<Rightarrow> v | Some G \<Rightarrow> mat_vec G v)"

definition is_eigenpair ::
  "'e::linordered_idom DenseMatrix \<Rightarrow> 'e DenseMatrix option \<Rightarrow> 'e \<times> 'e DenseVector \<Rightarrow> bool" where
  "is_eigenpair A B p =
     (case p of (lambda, v) \<Rightarrow>
        length v = length A \<and> list_ex (\<lambda>x. x \<noteq> 0) v \<and>
        mat_vec A v = map (\<lambda>x. lambda * x) (second_operator B v))"

text \<open>
  Modelled from the spec: the "full spectrum" of an operator of dimension n is a list of n
  eigenpairs whose eigenvectors are orthogonal to each other with respect to the second
  operator.
\<close>

fun orthogonal ::
  "'e::linordered_idom DenseMatrix option \<Rightarrow> 'e DenseVector list \<Rightarrow> bool" where
  "orthogonal B [] = True"
| "orthogonal B (v # vs) =
     (list_all (\<lambda>w. dot v (second_operator B w) = 0) vs \<and> orthogonal B vs)"

definition eigen_decomposition ::
  "'e::linordered_idom DenseMatrix \<Rightarrow> 'e DenseMatrix option \<Rightarrow> ('e \<times> 'e DenseVector) list \<Rightarrow>
     bool" where
  "eigen_decomposition A B ps =
     (length ps = length A \<and> list_all (is_eigenpair A B) ps \<and> orthogonal B (map snd ps))"

text \<open>
  Modelled from the spec: the error taxonomy of section 7, as far as \<^verbatim>\<open>solve\<close> raises it,
  and the order that a reduction method states for its eigenvalues.
\<close>

datatype solve_error = UnsupportedProblemError | ConvergenceError

datatype eigen_order = Ascending | Descending

text \<open>
  Modelled from the spec: the backends are "pluggable third-party libraries accessed
  through the backend contracts". Their numeric kernels are parameters: the eigenpairs
  of a problem as the libraries compute them, one restart of the Krylov iteration with
  its convergence test and iteration budget, and the randomized range finder. The theorems
  assume of the first that it is an eigen-decomposition of the problem.
\<close>

record ('e, 'st) backend_kernels =
  full_spectrum :: "'e DenseMatrix \<Rightarrow> 'e DenseMatrix option \<Rightarrow> ('e \<times> 'e DenseVector) list"
  krylov_start :: "'e DenseMatrix \<Rightarrow> 'e DenseMatrix option \<Rightarrow> nat \<Rightarrow> eigen_order \<Rightarrow> 'st"
  krylov_iterate :: "'st \<Rightarrow> 'st"
  krylov_converged :: "'st \<Rightarrow> bool"
  iteration_budget :: nat
  range_finder :: "'e DenseMatrix \<Rightarrow> nat \<Rightarrow> ('e \<times> 'e DenseVector) list"

text \<open>
  Modelled from the spec: "selects the targetDimension eigenpairs per the method's stated
  order (ascending or descending)".
\<close>

definition select_eigenpairs ::
  "eigen_order \<Rightarrow> nat \<Rightarrow> ('e::linorder \<times> 'vec) list \<Rightarrow> ('e \<times> 'vec) list" where
  "select_eigenpairs ord k ps =
     take k (case ord of
               Ascending \<Rightarrow> sort_key fst ps
             | Descending \<Rightarrow> rev (sort_key fst ps))"

text \<open>
  Modelled from the spec: "the requested extremal eigenpairs" of a spectrum are as many as
  requested (all, when fewer exist), taken from the spectrum, in the stated order, and
  none of the eigenpairs left out comes before a selected one in that order.
\<close>

definition requested_extremal ::
  "eigen_order \<Rightarrow> nat \<Rightarrow> ('e::linorder \<times> 'vec) list \<Rightarrow> ('e \<times> 'vec) list \<Rightarrow> bool" where
  "requested_extremal ord k spectrum ps =
     (length ps = min k (length spectrum) \<and>
      mset ps \<subseteq># mset spectrum \<and>
      (case ord of
         Ascending \<Rightarrow> sorted (map fst ps) \<and>
           (\<forall>p \<in> set ps. \<forall>q \<in># mset spectrum - mset ps. fst p \<le> fst q)
       | Descending \<Rightarrow> sorted (rev (map fst ps)) \<and>
           (\<forall>p \<in> set ps. \<forall>q \<in># mset spectrum - mset ps. fst q \<le> fst p)))"

text \<open>
  Modelled from the spec: "must converge within a bounded iteration count or fail with
  ConvergenceError". The budget counts the iterations that may still be run.
\<close>

fun arpack_iterate ::
  "('st \<Rightarrow> bool) \<Rightarrow> ('st \<Rightarrow> 'st) \<Rightarrow> nat \<Rightarrow> 'st \<Rightarrow> solve_error + 'st" where
  "arpack_iterate converged iterate 0 s =
     (if converged s then Inr s else Inl ConvergenceError)"
| "arpack_iterate converged iterate (Suc budget) s =
     (if converged s then Inr s else arpack_iterate converged iterate budget (iterate s))"

text \<open>
  Modelled from the spec: \<^verbatim>\<open>solve(operator, generalizedOperator?, targetDimension, backend)\<close>,
  with the order that the reduction method states. The dense backend "computes the full
  spectrum, then selects"; the iterative backend computes "only the requested extremal
  eigenpairs", which a converged iteration has found; the randomized backend is for
  "standard problems only". The sentinel backend selects no solver.
\<close>

fun solve ::
  "('e::linordered_idom, 'st) backend_kernels \<Rightarrow> 'e DenseMatrix \<Rightarrow> 'e DenseMatrix option \<Rightarrow>
     nat \<Rightarrow> eigen_order \<Rightarrow> TAPKEE_EIGEN_EMBEDDING_METHOD \<Rightarrow>
     solve_error + ('e \<times> 'e DenseVector) list" where
  "solve K A B targetDimension ord EIGEN_DENSE_SELFADJOINT_SOLVER =
     Inr (select_eigenpairs ord targetDimension (full_spectrum K A B))"
| "solve K A B targetDimension ord ARPACK =
     (case arpack_iterate (krylov_converged K) (krylov_iterate K) (iteration_budget K)
             (krylov_start K A B targetDimension ord) of
        Inl e \<Rightarrow> Inl e
      | Inr s \<Rightarrow> Inr (select_eigenpairs ord targetDimension (full_spectrum K A B)))"
| "solve K A B targetDimension ord RANDOMIZED =
     (case B of
        Some generalizedOperator \<Rightarrow> Inl UnsupportedProblemError
      | None \<Rightarrow> Inr (range_finder K A targetDimension))"
| "solve K A B targetDimension ord UNKNOWN_EIGEN_METHOD = Inl UnsupportedProblemError"

text \<open>
  Kernels that are exact on diagonal matrices with no second operator or the identity as
  second operator: the eigenvalues are the diagonal entries and the eigenvectors the unit
  vectors. The Krylov state counts its restarts and converges after two.
\<close>

definition unit_vector :: "nat \<Rightarrow> nat \<Rightarrow> int DenseVector" where
  "unit_vector n i = map (\<lambda>j. if j = i then 1 else 0) [0 ..< n]"

definition diagonal_kernels :: "(int, nat) backend_kernels" where
  "diagonal_kernels =
     \<lparr>full_spectrum = (\<lambda>A B. map (\<lambda>i. (A ! i ! i, unit_vector (length A) i)) [0 ..< length A]),
      krylov_start = (\<lambda>A B k ord. 0),
      krylov_iterate = Suc,
      krylov_converged = (\<lambda>n. 2 \<le> n),
      iteration_budget = 5,
      range_finder =
        (\<lambda>A k. take k (map (\<lambda>i. (A ! i ! i, unit_vector (length A) i)) [0 ..< length A]))\<rparr>"


section \<open>The enumerations are closed\<close>

lemma TAPKEE_PARAMETERS_UNIV:
  "(UNIV :: TAPKEE_PARAMETERS set) =
     {REDUCTION_METHOD, NUMBER_OF_NEIGHBORS, TARGET_DIMENSION, CURRENT_DIMENSION,
      EIGEN_EMBEDDING_METHOD, NEIGHBORS_METHOD, DIFFUSION_MAP_TIMESTEPS, GAUSSIAN_KERNEL_WIDTH,
      MAX_ITERATION, SPE_GLOBAL_STRATEGY, SPE_TOLERANCE, SPE_NUM_UPDATES, LANDMARK_RATIO,
      EIGENSHIFT}"
proof -
  have "k \<in> {REDUCTION_METHOD, NUMBER_OF_NEIGHBORS, TARGET_DIMENSION, CURRENT_DIMENSION,
      EIGEN_EMBEDDING_METHOD, NEIGHBORS_METHOD, DIFFUSION_MAP_TIMESTEPS, GAUSSIAN_KERNEL_WIDTH,
      MAX_ITERATION, SPE_GLOBAL_STRATEGY, SPE_TOLERANCE, SPE_NUM_UPDATES, LANDMARK_RATIO,
      EIGENSHIFT}" for k
    by (cases k) simp_all
  then show ?thesis by blast
qed

lemma spec_option_UNIV:
  "(UNIV :: spec_option set) =
     {Opt_method, Opt_neighbor_count, Opt_target_dimension, Opt_eigen_embedding_backend,
      Opt_neighbor_search_backend, Opt_diffusion_time_steps, Opt_kernel_width,
      Opt_max_iterations, Opt_landmark_ratio, Opt_eigenvalue_shift,
      Opt_proximity_embedding_tolerance, Opt_proximity_embedding_update_count,
      Opt_proximity_embedding_global_strategy_flag}"
proof -
  have "opt \<in> {Opt_method, Opt_neighbor_count, Opt_target_dimension,
      Opt_eigen_embedding_backend, Opt_neighbor_search_backend, Opt_diffusion_time_steps,
      Opt_kernel_width, Opt_max_iterations, Opt_landmark_ratio, Opt_eigenvalue_shift,
      Opt_proximity_embedding_tolerance, Opt_proximity_embedding_update_count,
      Opt_proximity_embedding_global_strategy_flag}" for opt
    by (cases opt) simp_all
  then show ?thesis by blast
qed

lemma range_spec_option_key: "range spec_option_key = UNIV - {CURRENT_DIMENSION}"
  unfolding spec_option_UNIV TAPKEE_PARAMETERS_UNIV by auto

lemma inj_spec_option_key: "inj spec_option_key"
proof (rule injI)
  fix x y
  assume "spec_option_key x = spec_option_key y"
  then show "x = y" by (cases x; cases y; simp)
qed

lemma TAPKEE_METHOD_UNIV:
  "(UNIV :: TAPKEE_METHOD set) =
     {KERNEL_LOCALLY_LINEAR_EMBEDDING, NEIGHBORHOOD_PRESERVING_EMBEDDING,
      KERNEL_LOCAL_TANGENT_SPACE_ALIGNMENT, LINEAR_LOCAL_TANGENT_SPACE_ALIGNMENT,
      HESSIAN_LOCALLY_LINEAR_EMBEDDING, LAPLACIAN_EIGENMAPS, LOCALITY_PRESERVING_PROJECTIONS,
      DIFFUSION_MAP, ISOMAP, LANDMARK_ISOMAP, MULTIDIMENSIONAL_SCALING,
      LANDMARK_MULTIDIMENSIONAL_SCALING, STOCHASTIC_PROXIMITY_EMBEDDING, KERNEL_PCA, PCA,
      UNKNOWN_METHOD}"
proof -
  have "m \<in> {KERNEL_LOCALLY_LINEAR_EMBEDDING, NEIGHBORHOOD_PRESERVING_EMBEDDING,
      KERNEL_LOCAL_TANGENT_SPACE_ALIGNMENT, LINEAR_LOCAL_TANGENT_SPACE_ALIGNMENT,
      HESSIAN_LOCALLY_LINEAR_EMBEDDING, LAPLACIAN_EIGENMAPS, LOCALITY_PRESERVING_PROJECTIONS,
      DIFFUSION_MAP, ISOMAP, LANDMARK_ISOMAP, MULTIDIMENSIONAL_SCALING,
      LANDMARK_MULTIDIMENSIONAL_SCALING, STOCHASTIC_PROXIMITY_EMBEDDING, KERNEL_PCA, PCA,
      UNKNOWN_METHOD}" for m
    by (cases m) simp_all
  then show ?thesis by blast
qed

lemma spec_algorithm_UNIV:
  "(UNIV :: spec_algorithm set) =
     {Alg_LLE, Alg_LTSA, Alg_Hessian_LLE, Alg_Laplacian_Eigenmaps,
      Alg_Locality_Preserving_Projections, Alg_Diffusion_Maps, Alg_Isomap,
      Alg_Landmark_Isomap, Alg_MDS, Alg_Landmark_MDS, Alg_Stochastic_Proximity_Embedding,
      Alg_PCA, Alg_Kernel_PCA}"
proof -
  have "a \<in> {Alg_LLE, Alg_LTSA, Alg_Hessian_LLE, Alg_Laplacian_Eigenmaps,
      Alg_Locality_Preserving_Projections, Alg_Diffusion_Maps, Alg_Isomap,
      Alg_Landmark_Isomap, Alg_MDS, Alg_Landmark_MDS, Alg_Stochastic_Proximity_Embedding,
      Alg_PCA, Alg_Kernel_PCA}" for a
    by (cases a) simp_all
  then show ?thesis by blast
qed

lemma range_spec_algorithm_member:
  "range spec_algorithm_member =
     UNIV - {NEIGHBORHOOD_PRESERVING_EMBEDDING, LINEAR_LOCAL_TANGENT_SPACE_ALIGNMENT,
             UNKNOWN_METHOD}"
  unfolding spec_algorithm_UNIV TAPKEE_METHOD_UNIV by auto

lemma inj_spec_algorithm_member: "inj spec_algorithm_member"
proof (rule injI)
  fix x y
  assume "spec_algorithm_member x = spec_algorithm_member y"
  then show "x = y" by (cases x; cases y; simp)
qed

subsection \<open>The keys of the parameters map\<close>

text \<open>
  C1, as stated: every key of \<^verbatim>\<open>TAPKEE_PARAMETERS\<close> is one of the options the specification
  lists. It fails at the enumerator \<^verbatim>\<open>CURRENT_DIMENSION\<close> (value 3, documented as
  \<^verbatim>\<open>unsigned int\<close>), which no listed option names.
\<close>

theorem C1_current_dimension_not_listed:
  "\<not> (\<exists>opt. spec_option_key opt = CURRENT_DIMENSION)"
proof
  assume "\<exists>opt. spec_option_key opt = CURRENT_DIMENSION"
  then obtain opt where "spec_option_key opt = CURRENT_DIMENSION" ..
  then show False by (cases opt) simp_all
qed

text \<open>
  C1, amended: \<^verbatim>\<open>ParametersMap\<close> maps the closed enumeration \<^verbatim>\<open>TAPKEE_PARAMETERS\<close> to a
  dynamically typed value. Each listed option names an enumerator of its own, and the
  enumerators are exactly the listed options and \<^verbatim>\<open>CURRENT_DIMENSION\<close>: the key set of every
  parameters map lies among these fourteen.
\<close>

theorem C1_parameters_map_keys:
  fixes m :: "'any ParametersMap"
  shows "inj spec_option_key \<and>
    range spec_option_key = UNIV - {CURRENT_DIMENSION} \<and>
    dom m \<subseteq> insert CURRENT_DIMENSION (range spec_option_key)"
  using inj_spec_option_key range_spec_option_key by auto

theorem C1_parameters_map_keys_witness:
  "dom [SPE_TOLERANCE \<mapsto> (1::nat), CURRENT_DIMENSION \<mapsto> 3]
     \<subseteq> insert CURRENT_DIMENSION (range spec_option_key)"
  using C1_parameters_map_keys [of "[SPE_TOLERANCE \<mapsto> (1::nat), CURRENT_DIMENSION \<mapsto> 3]"]
  by blast

subsection \<open>The reduction methods\<close>

text \<open>
  C2, as stated: the members of \<^verbatim>\<open>TAPKEE_METHOD\<close> are exactly the listed algorithms. It
  fails at \<^verbatim>\<open>NEIGHBORHOOD_PRESERVING_EMBEDDING\<close> (a documented algorithm of its own that the
  list does not have) and at \<^verbatim>\<open>UNKNOWN_METHOD\<close> (which is no algorithm).
\<close>

theorem C2_members_not_listed:
  "\<not> (\<exists>a. spec_algorithm_member a = NEIGHBORHOOD_PRESERVING_EMBEDDING) \<and>
   \<not> (\<exists>a. spec_algorithm_member a = UNKNOWN_METHOD)"
proof -
  have "spec_algorithm_member a \<noteq> NEIGHBORHOOD_PRESERVING_EMBEDDING" for a
    by (cases a) simp_all
  moreover have "spec_algorithm_member a \<noteq> UNKNOWN_METHOD" for a
    by (cases a) simp_all
  ultimately show ?thesis by blast
qed

text \<open>
  C2, amended: every listed algorithm has a member of \<^verbatim>\<open>TAPKEE_METHOD\<close> of its own, and the
  members of the enumeration are exactly those thirteen together with
  \<^verbatim>\<open>NEIGHBORHOOD_PRESERVING_EMBEDDING\<close>, \<^verbatim>\<open>LINEAR_LOCAL_TANGENT_SPACE_ALIGNMENT\<close> and the
  sentinel \<^verbatim>\<open>UNKNOWN_METHOD\<close>.
\<close>

theorem C2_method_members:
  "inj spec_algorithm_member \<and>
   range spec_algorithm_member =
     UNIV - {NEIGHBORHOOD_PRESERVING_EMBEDDING, LINEAR_LOCAL_TANGENT_SPACE_ALIGNMENT,
             UNKNOWN_METHOD}"
  using inj_spec_algorithm_member range_spec_algorithm_member by blast

subsection \<open>The sentinels\<close>

text \<open>
  C9: each of \<^verbatim>\<open>TAPKEE_METHOD\<close>, \<^verbatim>\<open>TAPKEE_NEIGHBORS_METHOD\<close> and
  \<^verbatim>\<open>TAPKEE_EIGEN_EMBEDDING_METHOD\<close> has an enumerator of its own for the unknown choice. It
  is the last enumerator, so its value (15, 2 and 3) is a value of the enumeration, and
  every other enumerator has a smaller value: no real selection shares it.
\<close>

theorem C9_unknown_sentinels:
  "TAPKEE_METHOD_value UNKNOWN_METHOD = 15 \<and>
   TAPKEE_NEIGHBORS_METHOD_value UNKNOWN_NEIGHBORS_METHOD = 2 \<and>
   TAPKEE_EIGEN_EMBEDDING_METHOD_value UNKNOWN_EIGEN_METHOD = 3 \<and>
   (m \<noteq> UNKNOWN_METHOD \<longrightarrow> TAPKEE_METHOD_value m < TAPKEE_METHOD_value UNKNOWN_METHOD) \<and>
   (n \<noteq> UNKNOWN_NEIGHBORS_METHOD \<longrightarrow>
      TAPKEE_NEIGHBORS_METHOD_value n < TAPKEE_NEIGHBORS_METHOD_value UNKNOWN_NEIGHBORS_METHOD) \<and>
   (e \<noteq> UNKNOWN_EIGEN_METHOD \<longrightarrow>
      TAPKEE_EIGEN_EMBEDDING_METHOD_value e
        < TAPKEE_EIGEN_EMBEDDING_METHOD_value UNKNOWN_EIGEN_METHOD)"
proof -
  have "m \<noteq> UNKNOWN_METHOD \<longrightarrow> TAPKEE_METHOD_value m < TAPKEE_METHOD_value UNKNOWN_METHOD"
    by (cases m) simp_all
  moreover have "n \<noteq> UNKNOWN_NEIGHBORS_METHOD \<longrightarrow>
      TAPKEE_NEIGHBORS_METHOD_value n < TAPKEE_NEIGHBORS_METHOD_value UNKNOWN_NEIGHBORS_METHOD"
    by (cases n) simp_all
  moreover have "e \<noteq> UNKNOWN_EIGEN_METHOD \<longrightarrow>
      TAPKEE_EIGEN_EMBEDDING_METHOD_value e
        < TAPKEE_EIGEN_EMBEDDING_METHOD_value UNKNOWN_EIGEN_METHOD"
    by (cases e) simp_all
  ultimately show ?thesis by simp
qed

theorem C9_unknown_sentinels_witness:
  "PCA \<noteq> UNKNOWN_METHOD \<and> COVER_TREE \<noteq> UNKNOWN_NEIGHBORS_METHOD \<and>
   ARPACK \<noteq> UNKNOWN_EIGEN_METHOD \<and>
   TAPKEE_METHOD_value PCA < TAPKEE_METHOD_value UNKNOWN_METHOD \<and>
   TAPKEE_NEIGHBORS_METHOD_value COVER_TREE
     < TAPKEE_NEIGHBORS_METHOD_value UNKNOWN_NEIGHBORS_METHOD \<and>
   TAPKEE_EIGEN_EMBEDDING_METHOD_value ARPACK
     < TAPKEE_EIGEN_EMBEDDING_METHOD_value UNKNOWN_EIGEN_METHOD"
  using C9_unknown_sentinels [of PCA COVER_TREE ARPACK] by simp

section \<open>The projecting function\<close>

text \<open>
  C10: the call operator dereferences the stored pointer without a test. A
  \<^verbatim>\<open>ProjectingFunction\<close> constructed from the null pointer has undefined behaviour on every
  call, in every program state, for every vector and whatever the overriders of \<^verbatim>\<open>project\<close>
  are; a call that returns was made through a pointer that is not null.
\<close>

theorem C10_null_implementation:
  "ProjectingFunction_call project this vec
     (ProjectingFunction_begin this (ProjectingFunction_ctor 0) m) = Inl NullPointerDereference \<and>
   (ProjectingFunction_call project this vec m = Inr r \<longrightarrow>
      (\<exists>f. projecting_functions m this = Some f \<and> implementation f \<noteq> 0))"
  by (auto simp: ProjectingFunction_call_def ProjectingFunction_begin_def
      ProjectingFunction_ctor_def split: option.splits if_splits)

theorem C10_null_implementation_witness:
  "ProjectingFunction_call example_project 10 [7, 8]
     (ProjectingFunction_begin 10 (ProjectingFunction_ctor 0) (example_memory FirstCoordinate 0))
     = Inl NullPointerDereference \<and>
   ProjectingFunction_call example_project 10 [7, 8] (example_memory FirstCoordinate 0)
     = Inr ([7], example_memory FirstCoordinate 0) \<and>
   (\<exists>f. projecting_functions (example_memory FirstCoordinate 0) 10 = Some f \<and>
        implementation f \<noteq> 0)"
  using C10_null_implementation [of example_project 10 "[7, 8]" "example_memory FirstCoordinate 0"
      "([7], example_memory FirstCoordinate 0)"]
  by (simp add: ProjectingFunction_call_def ProjectingFunction_begin_def
      ProjectingFunction_ctor_def example_memory_def)




text \<open>
  C8, as stated: every \<^verbatim>\<open>ProjectingFunction\<close> owns its implementation exclusively, and the
  pair lives and projects on its own. The wrapper keeps whatever pointer it is given and
  can be copied: two wrappers constructed from one pointer, and a wrapper and its copy,
  hold the same implementation. The sharing shows: through either of the wrappers at the
  addresses 10 and 11 the vector (5) is projected to (5) by a fresh \<^verbatim>\<open>CountingProjection\<close>,
  and after that one call through either of them the wrapper at 10 projects it to (6). The
  wrapper does not keep its implementation alive either: once the implementation object is
  destroyed, a call through the live wrapper is undefined.
\<close>

theorem C8_implementation_shared:
  "\<not> exclusively_owned [ProjectingFunction_ctor 1, ProjectingFunction_ctor 1] \<and>
   \<not> exclusively_owned
       [ProjectingFunction_ctor 1, ProjectingFunction_copy (ProjectingFunction_ctor 1)] \<and>
   ProjectingFunction_call example_project 10 [5] (example_memory CountingProjection 0)
     = Inr ([5], example_memory CountingProjection 1) \<and>
   ProjectingFunction_call example_project 11 [5] (example_memory CountingProjection 0)
     = Inr ([5], example_memory CountingProjection 1) \<and>
   ProjectingFunction_call example_project 10 [5] (example_memory CountingProjection 1)
     = Inr ([6], example_memory CountingProjection 2) \<and>
   ProjectingFunction_call example_project 10 [5]
       ((example_memory CountingProjection 0)\<lparr>implementations := Map.empty\<rparr>)
     = Inl DeadObjectAccess"
  by (simp add: exclusively_owned_def ProjectingFunction_call_def ProjectingFunction_ctor_def
      ProjectingFunction_copy_def example_memory_def numeral_2_eq_2)

text \<open>
  C8, amended: every \<^verbatim>\<open>ProjectingFunction\<close> holds, without owning it, the pointer to a
  \<^verbatim>\<open>ProjectingImplementation\<close> that it was constructed with, and a copy holds the same
  pointer. In a program state where a wrapper constructed from a non-null pointer and its
  copy are alive: if the implementation object at that address is alive, a call through
  either wrapper is that object's \<^verbatim>\<open>project\<close> (the one operation, selected by the object's
  dynamic type, from one input vector to one output vector), and it still is through the
  copy after the first wrapper is destroyed; if the implementation object is not alive,
  a call through either wrapper is undefined. Destroying a wrapper destroys no
  implementation.
\<close>

theorem C8_pointer_held:
  assumes "p \<noteq> 0" and "this \<noteq> that"
  shows "(let m' = ProjectingFunction_begin that
                     (ProjectingFunction_copy (ProjectingFunction_ctor p))
                     (ProjectingFunction_begin this (ProjectingFunction_ctor p) m)
     in (case implementations m p of
           Some obj \<Rightarrow>
             ProjectingFunction_call project this x m'
               = map_sum ProjectFailure id (project (dynamic_type obj) p x m') \<and>
             ProjectingFunction_call project that x m'
               = map_sum ProjectFailure id (project (dynamic_type obj) p x m') \<and>
             ProjectingFunction_call project that x (ProjectingFunction_dtor this m')
               = map_sum ProjectFailure id
                   (project (dynamic_type obj) p x (ProjectingFunction_dtor this m'))
         | None \<Rightarrow>
             ProjectingFunction_call project this x m' = Inl DeadObjectAccess \<and>
             ProjectingFunction_call project that x m' = Inl DeadObjectAccess) \<and>
        implementations (ProjectingFunction_dtor this m') = implementations m)"
  using assms
  by (auto simp: Let_def ProjectingFunction_call_def ProjectingFunction_begin_def
      ProjectingFunction_dtor_def ProjectingFunction_ctor_def ProjectingFunction_copy_def
      split: option.splits sum.splits)

theorem C8_pointer_held_witness:
  "(1::nat) \<noteq> 0 \<and> (10::nat) \<noteq> 11 \<and>
   ProjectingFunction_begin 11 (ProjectingFunction_copy (ProjectingFunction_ctor 1))
     (ProjectingFunction_begin 10 (ProjectingFunction_ctor 1)
        ((example_memory FirstCoordinate 0)\<lparr>projecting_functions := Map.empty\<rparr>))
     = example_memory FirstCoordinate 0 \<and>
   ProjectingFunction_call example_project 10 [7, 8] (example_memory FirstCoordinate 0)
     = Inr ([7], example_memory FirstCoordinate 0) \<and>
   ProjectingFunction_call example_project 11 [7, 8] (example_memory FirstCoordinate 0)
     = Inr ([7], example_memory FirstCoordinate 0) \<and>
   ProjectingFunction_call example_project 11 [7, 8]
       (ProjectingFunction_dtor 10 (example_memory FirstCoordinate 0))
     = Inr ([7], ProjectingFunction_dtor 10 (example_memory FirstCoordinate 0)) \<and>
   implementations (ProjectingFunction_dtor 10 (example_memory FirstCoordinate 0))
     = [1 \<mapsto> \<lparr>dynamic_type = FirstCoordinate, members = 0\<rparr>]"
  using C8_pointer_held [of 1 10 11
      "(example_memory FirstCoordinate 0)\<lparr>projecting_functions := Map.empty\<rparr>"
      example_project "[7, 8]"]
  by (simp add: ProjectingFunction_call_def ProjectingFunction_begin_def
      ProjectingFunction_dtor_def ProjectingFunction_ctor_def ProjectingFunction_copy_def
      example_memory_def)

section \<open>The solver backends\<close>

subsection \<open>The bounded Krylov iteration\<close>



subsection \<open>Selecting from the full spectrum\<close>

lemma select_eigenpairs_length:
  "length (select_eigenpairs ord k ps) = min k (length ps)"
  by (cases ord) (simp_all add: select_eigenpairs_def min.commute)

lemma select_eigenpairs_split:
  "mset (select_eigenpairs ord k ps) +
   mset (drop k (case ord of
                   Ascending \<Rightarrow> sort_key fst ps
                 | Descending \<Rightarrow> rev (sort_key fst ps))) = mset ps"
proof -
  let ?ys = "case ord of Ascending \<Rightarrow> sort_key fst ps | Descending \<Rightarrow> rev (sort_key fst ps)"
  have "mset (take k ?ys) + mset (drop k ?ys) = mset ?ys"
    by (metis append_take_drop_id mset_append)
  moreover have "mset ?ys = mset ps" by (cases ord) simp_all
  ultimately show ?thesis by (simp add: select_eigenpairs_def)
qed

lemma select_eigenpairs_subset: "mset (select_eigenpairs ord k ps) \<subseteq># mset ps"
  using select_eigenpairs_split [of ord k ps] by (metis mset_subset_eq_add_left)

lemma select_eigenpairs_ascending:
  "sorted (map fst (select_eigenpairs Ascending k ps)) \<and>
   (\<forall>p \<in> set (select_eigenpairs Ascending k ps).
      \<forall>q \<in># mset ps - mset (select_eigenpairs Ascending k ps). fst p \<le> fst q)"
proof -
  let ?ys = "sort_key fst ps"
  have s: "sorted (map fst (take k ?ys @ drop k ?ys))" by simp
  have rest: "mset ps - mset (select_eigenpairs Ascending k ps) = mset (drop k ?ys)"
    using select_eigenpairs_split [of Ascending k ps]
    by (metis add_diff_cancel_left' eigen_order.simps(3))
  from s have "sorted (map fst (take k ?ys)) \<and>
      (\<forall>p \<in> set (take k ?ys). \<forall>q \<in> set (drop k ?ys). fst p \<le> fst q)"
    unfolding map_append sorted_append by auto
  then show ?thesis unfolding rest by (simp add: select_eigenpairs_def)
qed

lemma select_eigenpairs_descending:
  "sorted (rev (map fst (select_eigenpairs Descending k ps))) \<and>
   (\<forall>p \<in> set (select_eigenpairs Descending k ps).
      \<forall>q \<in># mset ps - mset (select_eigenpairs Descending k ps). fst q \<le> fst p)"
proof -
  let ?ys = "rev (sort_key fst ps)"
  have "sorted (rev (map fst ?ys))" by (simp add: rev_map)
  then have s: "sorted (rev (map fst (take k ?ys @ drop k ?ys)))"
    by (simp only: append_take_drop_id)
  have rest: "mset ps - mset (select_eigenpairs Descending k ps) = mset (drop k ?ys)"
    using select_eigenpairs_split [of Descending k ps]
    by (metis add_diff_cancel_left' eigen_order.simps(4))
  from s have "sorted (rev (map fst (take k ?ys))) \<and>
      (\<forall>p \<in> set (take k ?ys). \<forall>q \<in> set (drop k ?ys). fst q \<le> fst p)"
    unfolding map_append rev_append sorted_append by auto
  then show ?thesis unfolding rest by (simp add: select_eigenpairs_def)
qed

lemma select_eigenpairs_extremal:
  "requested_extremal ord k ps (select_eigenpairs ord k ps)"
  using select_eigenpairs_ascending [of k ps] select_eigenpairs_descending [of k ps]
  by (cases ord)
    (simp_all add: requested_extremal_def select_eigenpairs_length select_eigenpairs_subset)

lemma select_eigenpairs_eigenpairs:
  assumes "eigen_decomposition A B ps"
  shows "list_all (is_eigenpair A B) (select_eigenpairs ord k ps)"
proof -
  have "set (select_eigenpairs ord k ps) \<subseteq> set ps"
    using select_eigenpairs_subset [of ord k ps] by (metis set_mset_mono set_mset_mset)
  with assms show ?thesis
    by (auto simp: eigen_decomposition_def list_all_iff)
qed

subsection \<open>The three backends\<close>

lemma diagonal_decomposition:
  "eigen_decomposition [[5, 0, 0], [0, -2, 0], [0, 0, 9]] None
     (full_spectrum diagonal_kernels [[5, 0, 0], [0, -2, 0], [0, 0, 9]] None)"
  by (simp add: eigen_decomposition_def is_eigenpair_def mat_vec_def dot_def
      second_operator_def diagonal_kernels_def unit_vector_def)



text \<open>
  C4: on a generalized eigenproblem (a second operator is given) \<^verbatim>\<open>solve\<close> with the
  \<^verbatim>\<open>RANDOMIZED\<close> backend fails with \<^verbatim>\<open>UnsupportedProblemError\<close> and returns no eigenpairs;
  on a standard one it returns the range finder's eigenpairs, so a result of the backend
  is always the result of a standard problem.
\<close>

theorem C4_randomized_standard_only:
  "solve K A (Some G) targetDimension ord RANDOMIZED = Inl UnsupportedProblemError \<and>
   solve K A None targetDimension ord RANDOMIZED = Inr (range_finder K A targetDimension) \<and>
   (solve K A B targetDimension ord RANDOMIZED = Inr r \<longrightarrow> B = None)"
  by (cases B) simp_all

theorem C4_randomized_standard_only_witness:
  "solve diagonal_kernels [[5, 0, 0], [0, -2, 0], [0, 0, 9]]
       (Some [[1, 0, 0], [0, 1, 0], [0, 0, 1]]) 2 Descending RANDOMIZED
     = Inl UnsupportedProblemError \<and>
   solve diagonal_kernels [[5, 0, 0], [0, -2, 0], [0, 0, 9]] None 2 Descending RANDOMIZED
     = Inr [(5, [1, 0, 0]), (-2, [0, 1, 0])]"
  using C4_randomized_standard_only [of diagonal_kernels "[[5, 0, 0], [0, -2, 0], [0, 0, 9]]"
      "[[1, 0, 0], [0, 1, 0], [0, 0, 1]]" 2 Descending None
      "[(5, [1, 0, 0]), (-2, [0, 1, 0])]"]
  by (simp add: diagonal_kernels_def unit_vector_def)



text \<open>
  C6, as stated: for every operator and every target dimension the dense backend selects
  exactly \<^verbatim>\<open>targetDimension\<close> eigenpairs. An operator of dimension 2 has two eigenpairs: for
  the diagonal operator with the entries 5 and -2 and the target dimension 3 the backend
  returns both, and no result of three.
\<close>

theorem C6_fewer_than_requested:
  "eigen_decomposition [[5, 0], [0, -2]] None
     (full_spectrum diagonal_kernels [[5, 0], [0, -2]] None) \<and>
   solve diagonal_kernels [[5, 0], [0, -2]] None 3 Ascending EIGEN_DENSE_SELFADJOINT_SOLVER
     = Inr [(-2, [0, 1]), (5, [1, 0])] \<and>
   \<not> (\<exists>ps. solve diagonal_kernels [[5, 0], [0, -2]] None 3 Ascending
              EIGEN_DENSE_SELFADJOINT_SOLVER = Inr ps \<and> length ps = 3)"
  by (simp add: eigen_decomposition_def is_eigenpair_def mat_vec_def dot_def
      second_operator_def diagonal_kernels_def unit_vector_def select_eigenpairs_def)

text \<open>
  C6, amended: for every operator of which the library's full spectrum is an
  eigen-decomposition and every target dimension that does not exceed the operator's
  dimension, \<^verbatim>\<open>solve\<close> with the \<^verbatim>\<open>EIGEN_DENSE_SELFADJOINT_SOLVER\<close> backend returns exactly
  \<^verbatim>\<open>targetDimension\<close> eigenpairs of the operator, selected from its full spectrum in the
  stated order (eigenvalues ascending or descending): no eigenpair left out comes before a
  selected one.
\<close>

theorem C6_dense_selects_target_dimension:
  assumes "eigen_decomposition A B (full_spectrum K A B)"
    and "targetDimension \<le> length A"
  shows "\<exists>ps. solve K A B targetDimension ord EIGEN_DENSE_SELFADJOINT_SOLVER = Inr ps \<and>
     length ps = targetDimension \<and>
     requested_extremal ord targetDimension (full_spectrum K A B) ps \<and>
     list_all (is_eigenpair A B) ps"
proof -
  let ?ps = "select_eigenpairs ord targetDimension (full_spectrum K A B)"
  from assms have "length ?ps = targetDimension"
    by (simp add: select_eigenpairs_length eigen_decomposition_def)
  moreover have "requested_extremal ord targetDimension (full_spectrum K A B) ?ps"
    by (rule select_eigenpairs_extremal)
  moreover have "list_all (is_eigenpair A B) ?ps"
    using assms(1) by (rule select_eigenpairs_eigenpairs)
  ultimately show ?thesis by simp
qed

theorem C6_dense_selects_target_dimension_witness:
  "eigen_decomposition [[5, 0, 0], [0, -2, 0], [0, 0, 9]] None
     (full_spectrum diagonal_kernels [[5, 0, 0], [0, -2, 0], [0, 0, 9]] None) \<and>
   2 \<le> length [[5, 0, 0], [0, -2, 0], [0, 0, 9 :: int]] \<and>
   solve diagonal_kernels [[5, 0, 0], [0, -2, 0], [0, 0, 9]] None 2 Descending
       EIGEN_DENSE_SELFADJOINT_SOLVER
     = Inr [(9, [0, 0, 1]), (5, [1, 0, 0])] \<and>
   solve diagonal_kernels [[5, 0, 0], [0, -2, 0], [0, 0, 9]] None 2 Ascending
       EIGEN_DENSE_SELFADJOINT_SOLVER
     = Inr [(-2, [0, 1, 0]), (5, [1, 0, 0])]"
  using diagonal_decomposition
    C6_dense_selects_target_dimension [OF diagonal_decomposition, of 2 Descending]
    C6_dense_selects_target_dimension [OF diagonal_decomposition, of 2 Ascending]
  by (simp add: diagonal_kernels_def unit_vector_def select_eigenpairs_def)

end
